theory Spec2Isabelle
  imports Main "HOL-Library.Sublist" "HOL-Library.Multiset" "HOL-Library.Char_ord"
    "HOL-Library.List_Lexorder"
begin

section \<open>JavaScript string primitives used by the tools\<close>

text \<open>
  Strings are lists of characters. The source's strings are sequences of UTF-16 code
  units; the model's characters are bytes, so it covers the ASCII texts the tools
  exchange (labels, day names, \<open>HH:MM\<close> times, dates, identifiers).
\<close>

text \<open>\<open>s.startsWith(p)\<close>.\<close>

definition startsWith :: "string \<Rightarrow> string \<Rightarrow> bool" where
  "startsWith s p = (take (length p) s = p)"

text \<open>\<open>s.replace(p, r)\<close> with a string pattern: the first occurrence of \<open>p\<close>
  in \<open>s\<close> becomes \<open>r\<close> (the only replacement the source passes is the empty
  string, which holds no \<open>$\<close> pattern).\<close>

fun replace :: "string \<Rightarrow> string \<Rightarrow> string \<Rightarrow> string" where
  "replace [] p r = (if p = [] then r else [])"
| "replace (c # cs) p r =
     (if startsWith (c # cs) p then r @ drop (length p) (c # cs)
      else c # replace cs p r)"

text \<open>\<open>s.split("\n")\<close>: the pieces between line feeds; the empty string splits
  into one empty piece.\<close>

fun split_nl :: "string \<Rightarrow> string list" where
  "split_nl [] = [[]]"
| "split_nl (c # cs) =
     (if c = CHR 0x0A then [] # split_nl cs
      else (case split_nl cs of [] \<Rightarrow> [[c]] | l # ls \<Rightarrow> (c # l) # ls))"

text \<open>\<open>s.toLowerCase()\<close> on ASCII text: the letters A to Z move to a to z. The
  source also folds letters outside ASCII, which the model leaves as they are; a
  statement about the folding of free text therefore asks for ASCII text (\<open>ascii\<close>
  below). The day names and the keys of \<open>dayMap\<close> are ASCII.\<close>

definition lower_char :: "char \<Rightarrow> char" where
  "lower_char c =
     (let n = (of_char c :: nat) in if 65 \<le> n \<and> n \<le> 90 then char_of (n + 32) else c)"

definition toLowerCase :: "string \<Rightarrow> string" where
  "toLowerCase s = map lower_char s"

text \<open>A string of ASCII characters only.\<close>

definition ascii :: "string \<Rightarrow> bool" where
  "ascii s = list_all (\<lambda>c. (of_char c :: nat) < 128) s"

text \<open>\<open>s.includes(n)\<close>: \<open>n\<close> occurs in \<open>s\<close> at some position.\<close>

fun str_includes :: "string \<Rightarrow> string \<Rightarrow> bool" where
  "str_includes [] n = (n = [])"
| "str_includes (c # cs) n = (startsWith (c # cs) n \<or> str_includes cs n)"

text \<open>The relational operators on two strings compare code unit by code unit; a proper
  prefix is smaller. \<open>str_le a b\<close> is \<open>a <= b\<close>, and \<open>a >= b\<close> is \<open>str_le b a\<close>.\<close>

fun str_le :: "string \<Rightarrow> string \<Rightarrow> bool" where
  "str_le [] b = True"
| "str_le (x # xs) [] = False"
| "str_le (x # xs) (y # ys) =
     ((of_char x :: nat) < of_char y \<or> (x = y \<and> str_le xs ys))"

text \<open>\<open>n.toString()\<close> of a non-negative integer, and \<open>s.padStart(k, "0")\<close>.\<close>

definition digit :: "nat \<Rightarrow> char" where
  "digit d = char_of (48 + d)"

fun toString :: "nat \<Rightarrow> string" where
  "toString n = (if n < 10 then [digit n] else toString (n div 10) @ [digit (n mod 10)])"

declare toString.simps [simp del]

definition padStart :: "string \<Rightarrow> nat \<Rightarrow> string" where
  "padStart s k = replicate (k - length s) (CHR ''0'') @ s"

text \<open>A value is truthy in a condition when it is neither \<open>undefined\<close> nor the
  empty string; \<open>a || b\<close> is \<open>a\<close> when \<open>a\<close> is truthy and \<open>b\<close> otherwise.\<close>

definition truthy :: "string option \<Rightarrow> bool" where
  "truthy v = (case v of None \<Rightarrow> False | Some s \<Rightarrow> s \<noteq> [])"

definition or_else :: "string option \<Rightarrow> string \<Rightarrow> string" where
  "or_else v d = (case v of None \<Rightarrow> d | Some s \<Rightarrow> if s = [] then d else s)"


section \<open>The note body: template and line parser\<close>

text \<open>\<open>createSharedSummary\<close> (unnamed/part_001, line 26) and
  \<open>updateSharedSummary\<close> (unnamed/part_002, line 99) build the body with the same
  template literal.\<close>

definition noteBody :: "string \<Rightarrow> string \<Rightarrow> string \<Rightarrow> string" where
  "noteBody title summary author =
     ''Title: '' @ title @ [CHR 0x0A] @ ''Summary: '' @ summary @ [CHR 0x0A] @
     ''Author: '' @ author"

text \<open>The three variables \<open>currentTitle\<close>, \<open>currentSummary\<close>, \<open>currentAuthor\<close>
  that the parser of \<open>updateSharedSummary\<close> (lines 78 to 92) fills.\<close>

record current =
  currentTitle :: string
  currentSummary :: string
  currentAuthor :: string

definition current0 :: current where
  "current0 = \<lparr>currentTitle = [], currentSummary = [], currentAuthor = []\<rparr>"

text \<open>The callback of \<open>lines.forEach\<close>: one \<open>if / else if\<close> chain per line.\<close>

definition parse_line :: "current \<Rightarrow> string \<Rightarrow> current" where
  "parse_line cur line =
     (if startsWith line ''Title: '' then
        cur\<lparr>currentTitle := replace line ''Title: '' []\<rparr>
      else if startsWith line ''Summary: '' then
        cur\<lparr>currentSummary := replace line ''Summary: '' []\<rparr>
      else if startsWith line ''Author: '' then
        cur\<lparr>currentAuthor := replace line ''Author: '' []\<rparr>
      else cur)"

definition decode :: "string \<Rightarrow> current" where
  "decode currentBody = foldl parse_line current0 (split_nl currentBody)"

text \<open>A line carries a label when the parser's chain takes one of its three branches.\<close>

definition labelled :: "string \<Rightarrow> bool" where
  "labelled line =
     (startsWith line ''Title: '' \<or> startsWith line ''Summary: '' \<or> startsWith line ''Author: '')"


section \<open>Dates of the JavaScript runtime\<close>

text \<open>
  \<open>new Date(ts)\<close> of an integer number of milliseconds is a valid date when
  \<open>ts\<close> is within 8.64e15 of the epoch, and the invalid date otherwise. On the invalid
  date \<open>toISOString\<close> throws a RangeError and \<open>getDay\<close>, \<open>getHours\<close>,
  \<open>getMinutes\<close> give NaN.
\<close>

definition valid_time :: "int \<Rightarrow> bool" where
  "valid_time ts = (\<bar>ts\<bar> \<le> 8640000000000000)"

text \<open>Year, month (1 to 12) and day of the month of a day number counted from
  1970-01-01, in the proleptic Gregorian calendar.\<close>

definition civil :: "int \<Rightarrow> int \<times> nat \<times> nat" where
  "civil days =
     (let z = days + 719468;
          era = z div 146097;
          doe = z mod 146097;
          yoe = (doe - doe div 1460 + doe div 36524 - doe div 146096) div 365;
          doy = doe - (365 * yoe + yoe div 4 - yoe div 100);
          mp = (5 * doy + 2) div 153;
          d = doy - (153 * mp + 2) div 5 + 1;
          m = (if mp < 10 then mp + 3 else mp - 9);
          y = yoe + era * 400 + (if m \<le> 2 then 1 else 0)
      in (y, nat m, nat d))"

text \<open>\<open>const pad = (n) => n.toString().padStart(2, "0")\<close>.\<close>

definition pad :: "nat \<Rightarrow> string" where
  "pad n = padStart (toString n) 2"

definition isoYear :: "int \<Rightarrow> string" where
  "isoYear y =
     (if 0 \<le> y \<and> y \<le> 9999 then padStart (toString (nat y)) 4
      else (if y < 0 then ''-'' else ''+'') @ padStart (toString (nat \<bar>y\<bar>)) 6)"

text \<open>\<open>new Date(ts).toISOString().split("T")[0]\<close> of a valid date: the UTC calendar
  date, the text before the only \<open>T\<close> of the ISO string.\<close>

definition isoDate :: "int \<Rightarrow> string" where
  "isoDate ts =
     (case civil (ts div 86400000) of
        (y, m, d) \<Rightarrow> isoYear y @ ''-'' @ pad m @ ''-'' @ pad d)"

text \<open>The process: its two environment variables (empty when unset) and the offset of
  its local time zone from UTC, in milliseconds, at a given instant.\<close>

record runtime =
  HUBSPOT_ACCESS_TOKEN :: string
  SHARED_CONTACT_ID :: string
  localTZA :: "int \<Rightarrow> int"

definition localTime :: "runtime \<Rightarrow> int \<Rightarrow> int" where
  "localTime rt ts = ts + localTZA rt ts"

text \<open>\<open>new Date(ts).getDay()\<close>: the local weekday, 0 for Sunday; \<open>None\<close> is NaN.
  Day 0 of the epoch was a Thursday.\<close>

definition getDay :: "runtime \<Rightarrow> int \<Rightarrow> nat option" where
  "getDay rt ts =
     (if valid_time ts then Some (nat ((localTime rt ts div 86400000 + 4) mod 7)) else None)"

definition getHours :: "runtime \<Rightarrow> int \<Rightarrow> nat" where
  "getHours rt ts = nat ((localTime rt ts div 3600000) mod 24)"

definition getMinutes :: "runtime \<Rightarrow> int \<Rightarrow> nat" where
  "getMinutes rt ts = nat ((localTime rt ts div 60000) mod 60)"

text \<open>The template \<open>`${pad(dateObj.getHours())}:${pad(dateObj.getMinutes())}`\<close>; NaN
  prints as \<open>NaN\<close>, which \<open>padStart\<close> leaves as it is.\<close>

definition currentTime :: "runtime \<Rightarrow> int \<Rightarrow> string" where
  "currentTime rt ts =
     (if valid_time ts then pad (getHours rt ts) @ '':'' @ pad (getMinutes rt ts)
      else ''NaN:NaN'')"


section \<open>The record store\<close>

text \<open>
  The store is the HubSpot engagements API, outside the repository; the tools reach it
  through four requests. The model keeps the engagements in the order the paged
  endpoint lists them, answers a request with a non-success status where \<open>outage\<close> says
  so, and logs every request issued.
\<close>

record engagement =
  eid :: string
  timestamp :: int
  body :: "string option"

datatype call =
    GetPaged
  | GetEngagement string
  | PutEngagement string string
  | DeleteEngagement string

datatype 'a response = Ok 'a | NotOk nat string

record hubspot =
  engagements :: "engagement list"
  outage :: "call \<Rightarrow> (nat \<times> string) option"
  calls :: "call list"

definition issue :: "call \<Rightarrow> hubspot \<Rightarrow> hubspot" where
  "issue c h = h\<lparr>calls := calls h @ [c]\<rparr>"

text \<open>\<open>GET /engagements/v1/engagements/paged?limit=100\<close>.\<close>

definition fetch_paged :: "hubspot \<Rightarrow> engagement list response \<times> hubspot" where
  "fetch_paged h =
     (case outage h GetPaged of
        Some (st, msg) \<Rightarrow> (NotOk st msg, issue GetPaged h)
      | None \<Rightarrow> (Ok (take 100 (engagements h)), issue GetPaged h))"

text \<open>\<open>GET /engagements/v1/engagements/{id}\<close>.\<close>

definition fetch_engagement :: "string \<Rightarrow> hubspot \<Rightarrow> engagement response \<times> hubspot" where
  "fetch_engagement i h =
     (case outage h (GetEngagement i) of
        Some (st, msg) \<Rightarrow> (NotOk st msg, issue (GetEngagement i) h)
      | None \<Rightarrow>
          (case find (\<lambda>e. eid e = i) (engagements h) of
             None \<Rightarrow> (NotOk 404 ''resource not found'', issue (GetEngagement i) h)
           | Some e \<Rightarrow> (Ok e, issue (GetEngagement i) h)))"

text \<open>\<open>PUT /engagements/v1/engagements/{id}\<close> with a new body; the answer carries the
  identifier of the engagement.\<close>

definition put_engagement :: "string \<Rightarrow> string \<Rightarrow> hubspot \<Rightarrow> string response \<times> hubspot" where
  "put_engagement i b h =
     (case outage h (PutEngagement i b) of
        Some (st, msg) \<Rightarrow> (NotOk st msg, issue (PutEngagement i b) h)
      | None \<Rightarrow>
          (case find (\<lambda>e. eid e = i) (engagements h) of
             None \<Rightarrow> (NotOk 404 ''resource not found'', issue (PutEngagement i b) h)
           | Some e \<Rightarrow>
               (Ok i, issue (PutEngagement i b)
                  (h\<lparr>engagements :=
                       map (\<lambda>e. if eid e = i then e\<lparr>body := Some b\<rparr> else e) (engagements h)\<rparr>))))"

text \<open>\<open>DELETE /engagements/v1/engagements/{id}\<close>.\<close>

definition delete_engagement :: "string \<Rightarrow> hubspot \<Rightarrow> unit response \<times> hubspot" where
  "delete_engagement i h =
     (case outage h (DeleteEngagement i) of
        Some (st, msg) \<Rightarrow> (NotOk st msg, issue (DeleteEngagement i) h)
      | None \<Rightarrow>
          (case find (\<lambda>e. eid e = i) (engagements h) of
             None \<Rightarrow> (NotOk 404 ''resource not found'', issue (DeleteEngagement i) h)
           | Some e \<Rightarrow>
               (Ok (), issue (DeleteEngagement i)
                  (h\<lparr>engagements := filter (\<lambda>e. eid e \<noteq> i) (engagements h)\<rparr>))))"


section \<open>Errors\<close>

text \<open>
  Every failure of a tool is a JavaScript \<open>Error\<close> caught at the end of the tool and
  turned into a result with \<open>isError: true\<close>; the missing configuration is returned
  the same way before the \<open>try\<close>. One constructor per \<open>throw\<close> of the source:
  \<^item> \<open>MissingEnv\<close>: "Missing required environment variables: ...";
  \<^item> \<open>HttpError\<close>: "HTTP-Code: ... Message: ...";
  \<^item> \<open>InvalidDayOfWeek\<close>: "Invalid dayOfWeek provided: ...";
  \<^item> \<open>LimitNotPositive\<close>: "Limit must be a positive number greater than 0";
  \<^item> \<open>NoSummaryForQuery\<close>: "No summary found matching the provided query.";
  \<^item> \<open>NoSummaryForFilters\<close>: "No summary found matching the provided filters.";
  \<^item> \<open>NoIdOrQuery\<close>: "Please provide an Engagement ID or a search query to locate
    the summary note.";
  \<^item> \<open>RangeError\<close>: thrown by \<open>toISOString\<close> on an invalid date;
  \<^item> \<open>TypeError\<close>: thrown by \<open>split\<close> on a body that is \<open>undefined\<close>.
\<close>

datatype error =
    MissingEnv "string list"
  | HttpError nat string
  | InvalidDayOfWeek string
  | LimitNotPositive
  | NoSummaryForQuery
  | NoSummaryForFilters
  | NoIdOrQuery
  | RangeError
  | TypeError

text \<open>\<open>checkHubSpotConfig\<close> (server.ts).\<close>

definition checkHubSpotConfig :: "runtime \<Rightarrow> string list" where
  "checkHubSpotConfig rt =
     (if HUBSPOT_ACCESS_TOKEN rt = [] then [''HUBSPOT_ACCESS_TOKEN''] else []) @
     (if SHARED_CONTACT_ID rt = [] then [''SHARED_CONTACT_ID''] else [])"


section \<open>The filters of \<open>getSummaries\<close> and \<open>handleDeleteSharedSummary\<close>\<close>

text \<open>
  \<open>getSummaries\<close> (tools/get_summaries.ts, lines 47 to 92) and
  \<open>handleDeleteSharedSummary\<close> (the server source in smithery.yaml, lines 420 to
  455) hold the same statements, one after the other: the date filter, the day filter,
  the time filter and the sort. Each statement is a definition here, and both tools run
  them in that order.
\<close>

text \<open>The arguments: \<open>None\<close> is \<open>undefined\<close>. A \<open>limit\<close> is an integer (the
  schema of tools/get_summaries.ts). A \<open>timeRange\<close> is the pair of its \<open>start\<close> and
  \<open>end\<close>.\<close>

record filters =
  date :: "string option"
  dayOfWeek :: "string option"
  limit :: "int option"
  timeRange :: "(string option \<times> string option) option"

text \<open>\<open>if (date) results = results.filter(...)\<close>.\<close>

definition filter_date :: "string option \<Rightarrow> engagement list \<Rightarrow> error + engagement list" where
  "filter_date dt results =
     (case dt of
        None \<Rightarrow> Inr results
      | Some d \<Rightarrow>
          if d = [] then Inr results
          else if list_ex (\<lambda>r. \<not> valid_time (timestamp r)) results then Inl RangeError
          else Inr (filter (\<lambda>r. isoDate (timestamp r) = d) results))"

text \<open>
  \<open>dayMap[key]\<close> reads a property of an object literal: one of the seven own
  properties, or a property inherited from \<open>Object.prototype\<close>, or \<open>undefined\<close>.
  The key is in lower case when it is looked up, and the inherited properties with a
  name in lower case are \<open>constructor\<close> and \<open>__proto__\<close>.
\<close>

datatype dayval = Day nat | Inherited | Undefined

definition dayMap :: "string \<Rightarrow> dayval" where
  "dayMap key =
     (if key = ''sunday'' then Day 0
      else if key = ''monday'' then Day 1
      else if key = ''tuesday'' then Day 2
      else if key = ''wednesday'' then Day 3
      else if key = ''thursday'' then Day 4
      else if key = ''friday'' then Day 5
      else if key = ''saturday'' then Day 6
      else if key = ''constructor'' \<or> key = ''__proto__'' then Inherited
      else Undefined)"

text \<open>\<open>new Date(ts).getDay() === targetDay\<close>: a number equals the same number only.\<close>

definition day_equals :: "nat option \<Rightarrow> dayval \<Rightarrow> bool" where
  "day_equals d targetDay =
     (case (d, targetDay) of (Some n, Day k) \<Rightarrow> n = k | _ \<Rightarrow> False)"

text \<open>\<open>if (dayOfWeek) { ... }\<close>.\<close>

definition filter_dayOfWeek :: "runtime \<Rightarrow> string option \<Rightarrow> engagement list \<Rightarrow> error + engagement list" where
  "filter_dayOfWeek rt dw results =
     (case dw of
        None \<Rightarrow> Inr results
      | Some d \<Rightarrow>
          if d = [] then Inr results
          else (let targetDay = dayMap (toLowerCase d) in
                if targetDay = Undefined then Inl (InvalidDayOfWeek d)
                else Inr (filter (\<lambda>r. day_equals (getDay rt (timestamp r)) targetDay) results)))"

text \<open>\<open>if (timeRange && timeRange.start && timeRange.end) { ... }\<close>.\<close>

definition filter_timeRange :: "runtime \<Rightarrow> (string option \<times> string option) option \<Rightarrow> engagement list \<Rightarrow> engagement list" where
  "filter_timeRange rt tr results =
     (case tr of
        Some (Some start, Some end') \<Rightarrow>
          if start \<noteq> [] \<and> end' \<noteq> [] then
            filter (\<lambda>r. str_le start (currentTime rt (timestamp r)) \<and>
                        str_le (currentTime rt (timestamp r)) end') results
          else results
      | _ \<Rightarrow> results)"

text \<open>
  \<open>results.sort((a, b) => b.engagement.timestamp - a.engagement.timestamp)\<close>.
  \<open>Array.prototype.sort\<close> is a stable sort by the comparator (ECMAScript 2019, and
  the Node 20 of the Dockerfile); the model sorts by insertion from the right, where an
  element stays in front of the elements that the comparator does not put before it.
\<close>

fun insert_cmp :: "('a \<Rightarrow> 'a \<Rightarrow> int) \<Rightarrow> 'a \<Rightarrow> 'a list \<Rightarrow> 'a list" where
  "insert_cmp cmp x [] = [x]"
| "insert_cmp cmp x (y # ys) =
     (if cmp x y \<le> 0 then x # y # ys else y # insert_cmp cmp x ys)"

definition array_sort :: "('a \<Rightarrow> 'a \<Rightarrow> int) \<Rightarrow> 'a list \<Rightarrow> 'a list" where
  "array_sort cmp xs = foldr (insert_cmp cmp) xs []"

definition by_timestamp_desc :: "engagement \<Rightarrow> engagement \<Rightarrow> int" where
  "by_timestamp_desc a b = timestamp b - timestamp a"

text \<open>The three filters and the sort, in the order of the source; the first error ends
  the run.\<close>

definition narrow :: "runtime \<Rightarrow> filters \<Rightarrow> engagement list \<Rightarrow> error + engagement list" where
  "narrow rt f results =
     (case filter_date (date f) results of
        Inl e \<Rightarrow> Inl e
      | Inr results1 \<Rightarrow>
          (case filter_dayOfWeek rt (dayOfWeek f) results1 of
             Inl e \<Rightarrow> Inl e
           | Inr results2 \<Rightarrow>
               Inr (array_sort by_timestamp_desc
                      (filter_timeRange rt (timeRange f) results2))))"


section \<open>The tools\<close>

text \<open>\<open>getSummaries\<close> (tools/get_summaries.ts). The last statement of the \<open>try\<close> is
  \<open>if (limit && limit > 0) ... else if (limit && limit < 1) throw ...\<close>, where the
  limit 0 is falsy in both conditions.\<close>

definition apply_limit :: "int option \<Rightarrow> engagement list \<Rightarrow> error + engagement list" where
  "apply_limit lim results =
     (case lim of
        None \<Rightarrow> Inr results
      | Some n \<Rightarrow>
          if n \<noteq> 0 \<and> n > 0 then Inr (take (nat n) results)
          else if n \<noteq> 0 \<and> n < 1 then Inl LimitNotPositive
          else Inr results)"

definition getSummaries :: "runtime \<Rightarrow> filters \<Rightarrow> hubspot \<Rightarrow> (error + engagement list) \<times> hubspot" where
  "getSummaries rt f h =
     (let missing = checkHubSpotConfig rt in
      if missing \<noteq> [] then (Inl (MissingEnv missing), h)
      else
        (case fetch_paged h of
           (NotOk st msg, h1) \<Rightarrow> (Inl (HttpError st msg), h1)
         | (Ok results, h1) \<Rightarrow>
             (case narrow rt f results of
                Inl e \<Rightarrow> (Inl e, h1)
              | Inr sorted_results \<Rightarrow> (apply_limit (limit f) sorted_results, h1))))"

text \<open>\<open>handleDeleteSharedSummary\<close> (smithery.yaml, lines 404 to 476). Without an identifier it looks for a
  candidate: \<open>const n = (limit && limit > 0) ? limit : 1\<close>, then
  \<open>results.slice(0, n)\<close>, and the first candidate is the target.\<close>

definition candidate_count :: "int option \<Rightarrow> nat" where
  "candidate_count lim =
     (case lim of None \<Rightarrow> 1 | Some n \<Rightarrow> if n \<noteq> 0 \<and> n > 0 then nat n else 1)"

definition delete_target :: "string \<Rightarrow> hubspot \<Rightarrow> (error + string) \<times> hubspot" where
  "delete_target targetId h =
     (case delete_engagement targetId h of
        (NotOk st msg, h2) \<Rightarrow> (Inl (HttpError st msg), h2)
      | (Ok u, h2) \<Rightarrow> (Inr targetId, h2))"

definition handleDeleteSharedSummary :: "runtime \<Rightarrow> string option \<Rightarrow> filters \<Rightarrow> hubspot \<Rightarrow> (error + string) \<times> hubspot" where
  "handleDeleteSharedSummary rt ident f h =
     (let missing = checkHubSpotConfig rt in
      if missing \<noteq> [] then (Inl (MissingEnv missing), h)
      else if truthy ident then delete_target (or_else ident []) h
      else
        (case fetch_paged h of
           (NotOk st msg, h1) \<Rightarrow> (Inl (HttpError st msg), h1)
         | (Ok results, h1) \<Rightarrow>
             (case narrow rt f results of
                Inl e \<Rightarrow> (Inl e, h1)
              | Inr sorted_results \<Rightarrow>
                  (case take (candidate_count (limit f)) sorted_results of
                     [] \<Rightarrow> (Inl NoSummaryForFilters, h1)
                   | c # cs \<Rightarrow> delete_target (eid c) h1))))"

text \<open>\<open>updateSharedSummary\<close> (unnamed/part_002, lines 14 to 123);
  \<open>handleUpdateSharedSummary\<close> (smithery.yaml, lines 327 to 399) has the same
  statements.

  Lines 44 to 47: the candidates of a query are the records whose body, or the empty
  string for a body that is absent, holds the query, both in lower case.\<close>

definition matches_query :: "string \<Rightarrow> engagement \<Rightarrow> bool" where
  "matches_query query record =
     str_includes (toLowerCase (or_else (body record) [])) (toLowerCase query)"

text \<open>
  The match as the specification words it, for comparison with \<open>matches_query\<close>: the
  decoded body, that is the title, the summary and the author that the parser reads out
  of the body, contains the query as a case-insensitive substring. This is not a
  statement of the source.
\<close>

definition decoded_body_contains :: "string \<Rightarrow> engagement \<Rightarrow> bool" where
  "decoded_body_contains query record =
     (let cur = decode (or_else (body record) []) in
      str_includes (toLowerCase (currentTitle cur)) (toLowerCase query) \<or>
      str_includes (toLowerCase (currentSummary cur)) (toLowerCase query) \<or>
      str_includes (toLowerCase (currentAuthor cur)) (toLowerCase query))"

text \<open>Lines 65 to 118: read the note, parse it, merge, write it back.\<close>

definition update_target :: "string \<Rightarrow> string option \<Rightarrow> string option \<Rightarrow> string option \<Rightarrow> hubspot \<Rightarrow> (error + string) \<times> hubspot" where
  "update_target targetId title summary author h =
     (case fetch_engagement targetId h of
        (NotOk st msg, h2) \<Rightarrow> (Inl (HttpError st msg), h2)
      | (Ok getData, h2) \<Rightarrow>
          (case body getData of
             None \<Rightarrow> (Inl TypeError, h2)
           | Some currentBody \<Rightarrow>
               (let cur = decode currentBody;
                    newTitle = or_else title (currentTitle cur);
                    newSummary = or_else summary (currentSummary cur);
                    newAuthor = or_else author (currentAuthor cur);
                    updatedBody = noteBody newTitle newSummary newAuthor
                in (case put_engagement targetId updatedBody h2 of
                      (NotOk st msg, h3) \<Rightarrow> (Inl (HttpError st msg), h3)
                    | (Ok i, h3) \<Rightarrow> (Inr i, h3)))))"

definition updateSharedSummary :: "runtime \<Rightarrow> string option \<Rightarrow> string option \<Rightarrow> string option \<Rightarrow> string option \<Rightarrow> string option \<Rightarrow> hubspot \<Rightarrow> (error + string) \<times> hubspot" where
  "updateSharedSummary rt ident query title summary author h =
     (let missing = checkHubSpotConfig rt in
      if missing \<noteq> [] then (Inl (MissingEnv missing), h)
      else if \<not> truthy ident \<and> truthy query then
        (case fetch_paged h of
           (NotOk st msg, h1) \<Rightarrow> (Inl (HttpError st msg), h1)
         | (Ok results, h1) \<Rightarrow>
             (case array_sort by_timestamp_desc
                     (filter (matches_query (or_else query [])) results) of
                [] \<Rightarrow> (Inl NoSummaryForQuery, h1)
              | c # cs \<Rightarrow>
                  if eid c = [] then (Inl NoIdOrQuery, h1)
                  else update_target (eid c) title summary author h1))
      else if \<not> truthy ident then (Inl NoIdOrQuery, h)
      else update_target (or_else ident []) title summary author h)"


section \<open>A process and a store to run the tools on\<close>

text \<open>A configured process in UTC, and three notes: \<open>101\<close> of Friday 2024-03-01 at
  09:30, \<open>102\<close> of Saturday 2024-03-02 at 08:59 and \<open>103\<close> of Thursday 2024-02-29 at
  10:01, all UTC.\<close>

definition rt0 :: runtime where
  "rt0 = \<lparr>HUBSPOT_ACCESS_TOKEN = ''token'', SHARED_CONTACT_ID = ''51'',
           localTZA = (\<lambda>ts. 0)\<rparr>"

definition note101 :: engagement where
  "note101 = \<lparr>eid = ''101'', timestamp = 1709285400000,
               body = Some (noteBody ''Budget'' ''Q1 numbers'' ''Ann'')\<rparr>"

definition note102 :: engagement where
  "note102 = \<lparr>eid = ''102'', timestamp = 1709369940000,
               body = Some (noteBody ''Plan'' ''Roadmap'' ''Bob'')\<rparr>"

definition note103 :: engagement where
  "note103 = \<lparr>eid = ''103'', timestamp = 1709200860000,
               body = Some (noteBody ''Retro'' ''Over budget'' ''Cy'')\<rparr>"

definition store0 :: hubspot where
  "store0 = \<lparr>engagements = [note101, note102, note103], outage = (\<lambda>c. None),
              calls = []\<rparr>"

text \<open>A store whose only note, \<open>104\<close>, holds free text with no label line.\<close>

definition note104 :: engagement where
  "note104 = \<lparr>eid = ''104'', timestamp = 1709373600000, body = Some ''call Ann back''\<rparr>"

definition store104 :: hubspot where
  "store104 = \<lparr>engagements = [note104], outage = (\<lambda>c. None), calls = []\<rparr>"

definition no_filters :: filters where
  "no_filters = \<lparr>date = None, dayOfWeek = None, limit = None, timeRange = None\<rparr>"


section \<open>Facts about the string primitives\<close>

lemma split_nl_not_Nil: "split_nl s \<noteq> []"
  by (induction s) (auto split: list.splits)

lemma split_nl_no_nl: "CHR 0x0A \<notin> set s \<Longrightarrow> split_nl s = [s]"
  by (induction s) auto

lemma split_nl_append:
  "CHR 0x0A \<notin> set a \<Longrightarrow> split_nl (a @ CHR 0x0A # b) = a # split_nl b"
  by (induction a) auto

lemma replace_prefix: "startsWith s p \<Longrightarrow> replace s p [] = drop (length p) s"
  by (cases s) (auto simp: startsWith_def)

text \<open>The comparison of the source is the lexicographic order of the code units.\<close>

lemma str_le_lex: "str_le a b \<longleftrightarrow> a \<le> b"
  by (induction a b rule: str_le.induct) (auto simp: less_char_def)

text \<open>\<open>includes\<close> holds when the second string is a contiguous part of the first.\<close>

lemma startsWith_prefix: "startsWith s p \<longleftrightarrow> prefix p s"
proof
  assume "startsWith s p"
  then have "take (length p) s = p" by (simp add: startsWith_def)
  then show "prefix p s" using take_is_prefix[of "length p" s] by simp
next
  assume "prefix p s"
  then obtain zs where "s = p @ zs" by (auto simp: prefix_def)
  then show "startsWith s p" by (simp add: startsWith_def)
qed

lemma str_includes_sublist: "str_includes s n \<longleftrightarrow> sublist n s"
  by (induction s) (simp_all add: startsWith_prefix sublist_Cons_right)


section \<open>The body codec\<close>

lemma split_nl_noteBody:
  assumes "CHR 0x0A \<notin> set t" "CHR 0x0A \<notin> set s" "CHR 0x0A \<notin> set a"
  shows "split_nl (noteBody t s a) = [''Title: '' @ t, ''Summary: '' @ s, ''Author: '' @ a]"
proof -
  have 1: "CHR 0x0A \<notin> set (''Title: '' @ t)" using assms(1) by simp
  have 2: "CHR 0x0A \<notin> set (''Summary: '' @ s)" using assms(2) by simp
  have 3: "CHR 0x0A \<notin> set (''Author: '' @ a)" using assms(3) by simp
  have "noteBody t s a =
        (''Title: '' @ t) @ CHR 0x0A # ((''Summary: '' @ s) @ CHR 0x0A # (''Author: '' @ a))"
    by (simp add: noteBody_def)
  then show ?thesis
    using split_nl_append[OF 1] split_nl_append[OF 2] split_nl_no_nl[OF 3] by simp
qed

lemma parse_title: "parse_line cur (''Title: '' @ t) = cur\<lparr>currentTitle := t\<rparr>"
  by (simp add: parse_line_def startsWith_def)

lemma parse_summary: "parse_line cur (''Summary: '' @ t) = cur\<lparr>currentSummary := t\<rparr>"
  by (simp add: parse_line_def startsWith_def)

lemma parse_author: "parse_line cur (''Author: '' @ t) = cur\<lparr>currentAuthor := t\<rparr>"
  by (simp add: parse_line_def startsWith_def)

lemma decode_noteBody:
  assumes "CHR 0x0A \<notin> set t" "CHR 0x0A \<notin> set s" "CHR 0x0A \<notin> set a"
  shows "decode (noteBody t s a) =
         \<lparr>currentTitle = t, currentSummary = s, currentAuthor = a\<rparr>"
  using split_nl_noteBody[OF assms]
  by (simp add: decode_def parse_title parse_summary parse_author current0_def
      del: append.simps)

text \<open>
  Claim C2. For all strings \<open>t\<close>, \<open>s\<close>, \<open>a\<close> without a line feed, parsing the body
  that the template of create builds from them, with the line parser of update, gives
  back exactly \<open>t\<close>, \<open>s\<close> and \<open>a\<close>.
\<close>

theorem decode_noteBody_roundtrip:
  assumes "CHR 0x0A \<notin> set t" and "CHR 0x0A \<notin> set s" and "CHR 0x0A \<notin> set a"
  shows "currentTitle (decode (noteBody t s a)) = t \<and>
         currentSummary (decode (noteBody t s a)) = s \<and>
         currentAuthor (decode (noteBody t s a)) = a"
  using decode_noteBody[OF assms] by simp

theorem decode_noteBody_roundtrip_witness:
  "CHR 0x0A \<notin> set ''Budget'' \<and> CHR 0x0A \<notin> set ''Q1 numbers'' \<and> CHR 0x0A \<notin> set ''Ann'' \<and>
   currentTitle (decode (noteBody ''Budget'' ''Q1 numbers'' ''Ann'')) = ''Budget'' \<and>
   currentSummary (decode (noteBody ''Budget'' ''Q1 numbers'' ''Ann'')) = ''Q1 numbers'' \<and>
   currentAuthor (decode (noteBody ''Budget'' ''Q1 numbers'' ''Ann'')) = ''Ann''"
  using decode_noteBody_roundtrip[of "''Budget''" "''Q1 numbers''" "''Ann''"] by simp

lemma parse_line_unlabelled: "\<not> labelled line \<Longrightarrow> parse_line cur line = cur"
  by (simp add: labelled_def parse_line_def)

lemma foldl_parse_filter:
  "foldl parse_line cur (filter labelled ls) = foldl parse_line cur ls"
  by (induction ls arbitrary: cur) (auto simp: parse_line_unlabelled)

lemma foldl_title_absent:
  "\<forall>l \<in> set ls. \<not> startsWith l ''Title: '' \<Longrightarrow>
   currentTitle (foldl parse_line cur ls) = currentTitle cur"
  by (induction ls arbitrary: cur) (auto simp: parse_line_def)

lemma foldl_summary_absent:
  "\<forall>l \<in> set ls. \<not> startsWith l ''Summary: '' \<Longrightarrow>
   currentSummary (foldl parse_line cur ls) = currentSummary cur"
  by (induction ls arbitrary: cur) (auto simp: parse_line_def)

lemma foldl_author_absent:
  "\<forall>l \<in> set ls. \<not> startsWith l ''Author: '' \<Longrightarrow>
   currentAuthor (foldl parse_line cur ls) = currentAuthor cur"
  by (induction ls arbitrary: cur) (auto simp: parse_line_def)

section \<open>The sort\<close>

lemma insert_cmp_insort:
  "insert_cmp by_timestamp_desc x ys = insort_key (\<lambda>r. - timestamp r) x ys"
  by (induction ys) (auto simp: by_timestamp_desc_def)

lemma array_sort_sort_key:
  "array_sort by_timestamp_desc xs = sort_key (\<lambda>r. - timestamp r) xs"
  by (induction xs) (auto simp: array_sort_def insert_cmp_insort)

lemma array_sort_sorted:
  "sorted_wrt (\<lambda>a b. timestamp b \<le> timestamp a) (array_sort by_timestamp_desc xs)"
proof -
  have "sorted (map (\<lambda>r. - timestamp r) (sort_key (\<lambda>r. - timestamp r) xs))"
    by (rule sorted_sort_key)
  then show ?thesis
    by (simp add: array_sort_sort_key sorted_map)
qed

lemma array_sort_mset: "mset (array_sort by_timestamp_desc xs) = mset xs"
  by (simp add: array_sort_sort_key)

lemma array_sort_stable:
  "filter (\<lambda>r. timestamp r = t) (array_sort by_timestamp_desc xs) =
   filter (\<lambda>r. timestamp r = t) xs"
proof -
  have "filter (\<lambda>r. - timestamp r = - t) (sort_key (\<lambda>r. - timestamp r) xs)
        = filter (\<lambda>r. - timestamp r = - t) xs"
    by (rule sort_key_stable)
  then show ?thesis by (simp add: array_sort_sort_key)
qed

lemma array_sort_set: "set (array_sort by_timestamp_desc xs) = set xs"
  by (simp add: array_sort_sort_key)

lemma array_sort_Nil_iff: "array_sort by_timestamp_desc xs = [] \<longleftrightarrow> xs = []"
  using array_sort_set[of xs] by (metis set_empty)


section \<open>The store and the filters\<close>

lemma fetch_paged_issue: "fetch_paged h = (r, h1) \<Longrightarrow> h1 = issue GetPaged h"
  by (auto simp: fetch_paged_def split: option.splits prod.splits)

lemma narrow_limit_irrelevant: "narrow rt (f\<lparr>limit := l\<rparr>) results = narrow rt f results"
  by (simp add: narrow_def split: sum.splits)

lemma filter_date_error: "filter_date d xs = Inl e \<Longrightarrow> e = RangeError"
  by (auto simp: filter_date_def split: option.splits if_splits)

lemma filter_dayOfWeek_error: "filter_dayOfWeek rt d xs = Inl e \<Longrightarrow> \<exists>n. e = InvalidDayOfWeek n"
  by (auto simp: filter_dayOfWeek_def Let_def split: option.splits if_splits)

lemma narrow_error: "narrow rt f xs = Inl e \<Longrightarrow> e \<noteq> LimitNotPositive"
  by (auto simp: narrow_def split: sum.splits dest: filter_date_error filter_dayOfWeek_error)

lemma delete_target_error: "fst (delete_target i h) \<noteq> Inl LimitNotPositive"
  by (auto simp: delete_target_def split: prod.splits response.splits)

text \<open>Runs on the process \<open>rt0\<close> and the store \<open>store0\<close>.\<close>

lemma config_rt0: "checkHubSpotConfig rt0 = []"
  by (simp add: checkHubSpotConfig_def rt0_def)

lemma paged_store0:
  "fetch_paged store0 = (Ok [note101, note102, note103], issue GetPaged store0)"
  by (simp add: fetch_paged_def store0_def)

lemma narrow_no_filters:
  "narrow rt0 (no_filters\<lparr>limit := l\<rparr>) [note101, note102, note103] = Inr [note102, note101, note103]"
  by (simp add: narrow_def no_filters_def filter_date_def filter_dayOfWeek_def
      filter_timeRange_def array_sort_def by_timestamp_desc_def note101_def note102_def
      note103_def)

lemma narrow_sunday:
  "narrow rt0 (no_filters\<lparr>dayOfWeek := Some ''Sunday''\<rparr>) [note101, note102, note103] = Inr []"
  by code_simp


section \<open>Sorting and truncation\<close>

text \<open>
  Claim C8. Once the date and the day filter have passed without an error, the records
  that the time filter keeps are sorted: the sorted list is in descending order of
  \<open>timestamp\<close>, holds the same records as often as the kept list, and the records of
  any one timestamp stand in it in their original order (the sort is stable). With a
  limit \<open>n > 0\<close>, \<open>getSummaries\<close> returns exactly the first \<open>n\<close> records of the
  sorted list.
\<close>

theorem sort_then_limit:
  assumes "checkHubSpotConfig rt = []"
    and "fetch_paged h = (Ok results, h1)"
    and "filter_date (date f) results = Inr r1"
    and "filter_dayOfWeek rt (dayOfWeek f) r1 = Inr r2"
  shows "\<exists>srt. narrow rt f results = Inr srt \<and>
           sorted_wrt (\<lambda>a b. timestamp b \<le> timestamp a) srt \<and>
           mset srt = mset (filter_timeRange rt (timeRange f) r2) \<and>
           (\<forall>t. filter (\<lambda>r. timestamp r = t) srt =
                filter (\<lambda>r. timestamp r = t) (filter_timeRange rt (timeRange f) r2)) \<and>
           (\<forall>n. limit f = Some n \<and> 0 < n \<longrightarrow>
                getSummaries rt f h = (Inr (take (nat n) srt), h1))"
proof -
  let ?srt = "array_sort by_timestamp_desc (filter_timeRange rt (timeRange f) r2)"
  have n: "narrow rt f results = Inr ?srt"
    using assms(3,4) by (simp add: narrow_def)
  have l: "\<forall>n. limit f = Some n \<and> 0 < n \<longrightarrow>
             getSummaries rt f h = (Inr (take (nat n) ?srt), h1)"
    using assms(1,2) n by (simp add: getSummaries_def apply_limit_def)
  show ?thesis
    using n l array_sort_sorted array_sort_mset array_sort_stable by blast
qed

theorem sort_then_limit_witness:
  "checkHubSpotConfig rt0 = [] \<and>
   fetch_paged store0 = (Ok [note101, note102, note103], issue GetPaged store0) \<and>
   filter_date (date (no_filters\<lparr>limit := Some 2\<rparr>)) [note101, note102, note103] =
     Inr [note101, note102, note103] \<and>
   filter_dayOfWeek rt0 (dayOfWeek (no_filters\<lparr>limit := Some 2\<rparr>)) [note101, note102, note103] =
     Inr [note101, note102, note103] \<and>
   getSummaries rt0 (no_filters\<lparr>limit := Some 2\<rparr>) store0 =
     (Inr [note102, note101], issue GetPaged store0)"
proof -
  let ?f = "no_filters\<lparr>limit := Some 2\<rparr>"
  let ?page = "[note101, note102, note103]"
  have c: "filter_date (date ?f) ?page = Inr ?page"
    by (simp add: filter_date_def no_filters_def)
  have d: "filter_dayOfWeek rt0 (dayOfWeek ?f) ?page = Inr ?page"
    by (simp add: filter_dayOfWeek_def no_filters_def)
  obtain srt where n: "narrow rt0 ?f ?page = Inr srt"
    and l: "\<forall>n. limit ?f = Some n \<and> 0 < n \<longrightarrow>
              getSummaries rt0 ?f store0 = (Inr (take (nat n) srt), issue GetPaged store0)"
    using sort_then_limit[OF config_rt0 paged_store0 c d] by blast
  have "srt = [note102, note101, note103]"
    using n narrow_no_filters[of "Some 2"] by simp
  moreover have "getSummaries rt0 ?f store0 = (Inr (take (nat 2) srt), issue GetPaged store0)"
    using l by simp
  ultimately show ?thesis using config_rt0 paged_store0 c d by simp
qed


section \<open>Deleting with filters that match nothing\<close>

text \<open>
  Claim C5. \<open>handleDeleteSharedSummary\<close> without an identifier, on a page of which the
  filters keep no record, fails with "No summary found matching the provided filters.";
  the only request it has issued is the page fetch, no DELETE, and the engagements of the
  store are what they were.
\<close>

theorem delete_no_match_no_call:
  assumes "checkHubSpotConfig rt = []"
    and "\<not> truthy ident"
    and "fetch_paged h = (Ok results, h1)"
    and "narrow rt f results = Inr []"
  shows "handleDeleteSharedSummary rt ident f h = (Inl NoSummaryForFilters, h1) \<and>
         calls h1 = calls h @ [GetPaged] \<and> engagements h1 = engagements h"
proof -
  have "h1 = issue GetPaged h" using assms(3) by (rule fetch_paged_issue)
  then show ?thesis
    using assms by (simp add: handleDeleteSharedSummary_def issue_def)
qed

theorem delete_no_match_no_call_witness:
  "checkHubSpotConfig rt0 = [] \<and> \<not> truthy None \<and>
   fetch_paged store0 = (Ok [note101, note102, note103], issue GetPaged store0) \<and>
   narrow rt0 (no_filters\<lparr>dayOfWeek := Some ''Sunday''\<rparr>) [note101, note102, note103] = Inr [] \<and>
   handleDeleteSharedSummary rt0 None (no_filters\<lparr>dayOfWeek := Some ''Sunday''\<rparr>) store0 =
     (Inl NoSummaryForFilters, issue GetPaged store0) \<and>
   calls (issue GetPaged store0) = calls store0 @ [GetPaged] \<and>
   engagements (issue GetPaged store0) = engagements store0"
proof -
  have t: "\<not> truthy None" by (simp add: truthy_def)
  show ?thesis
    using delete_no_match_no_call[OF config_rt0 t paged_store0 narrow_sunday]
      config_rt0 t paged_store0 narrow_sunday
    by simp
qed


section \<open>A limit that is not positive\<close>

text \<open>
  Claim C1, as stated, fails: with the limit \<open>-1\<close> and no identifier,
  \<open>handleDeleteSharedSummary\<close> raises no error; it deletes the most recent note.
\<close>

theorem delete_nonpositive_limit_counterexample:
  "fst (handleDeleteSharedSummary rt0 None (no_filters\<lparr>limit := Some (- 1)\<rparr>) store0) = Inr ''102'' \<and>
   calls (snd (handleDeleteSharedSummary rt0 None (no_filters\<lparr>limit := Some (- 1)\<rparr>) store0)) =
     [GetPaged, DeleteEngagement ''102'']"
  by code_simp


text \<open>
  Claim C1, amended. When the configuration is complete, the page fetch succeeds and the
  filters raise no error, \<open>getSummaries\<close> with a negative limit fails with "Limit must
  be a positive number greater than 0". \<open>handleDeleteSharedSummary\<close> never fails with
  that error: with a limit \<open>n \<le> 0\<close> it does exactly what it does with the limit 1.
\<close>

theorem limit_not_positive:
  assumes "checkHubSpotConfig rt = []"
    and "fetch_paged h = (Ok results, h1)"
    and "narrow rt f results = Inr srt"
    and "n \<le> 0"
  shows "(n < 0 \<longrightarrow> getSummaries rt (f\<lparr>limit := Some n\<rparr>) h = (Inl LimitNotPositive, h1)) \<and>
         handleDeleteSharedSummary rt ident (f\<lparr>limit := Some n\<rparr>) h =
           handleDeleteSharedSummary rt ident (f\<lparr>limit := Some 1\<rparr>) h \<and>
         fst (handleDeleteSharedSummary rt ident (f\<lparr>limit := Some n\<rparr>) h) \<noteq> Inl LimitNotPositive"
proof -
  have g: "n < 0 \<longrightarrow> getSummaries rt (f\<lparr>limit := Some n\<rparr>) h = (Inl LimitNotPositive, h1)"
    using assms(1,2,3)
    by (simp add: getSummaries_def apply_limit_def narrow_limit_irrelevant)
  have d: "handleDeleteSharedSummary rt ident (f\<lparr>limit := Some n\<rparr>) h =
           handleDeleteSharedSummary rt ident (f\<lparr>limit := Some 1\<rparr>) h"
    using assms(4)
    by (auto simp: handleDeleteSharedSummary_def candidate_count_def narrow_limit_irrelevant
        Let_def split: prod.splits response.splits sum.splits)
  have e: "fst (handleDeleteSharedSummary rt ident (f\<lparr>limit := Some n\<rparr>) h) \<noteq> Inl LimitNotPositive"
    using assms(1,2,3)
    by (auto simp: handleDeleteSharedSummary_def narrow_limit_irrelevant delete_target_error
        split: list.splits)
  show ?thesis using g d e by blast
qed

theorem limit_not_positive_witness:
  "checkHubSpotConfig rt0 = [] \<and>
   fetch_paged store0 = (Ok [note101, note102, note103], issue GetPaged store0) \<and>
   narrow rt0 no_filters [note101, note102, note103] = Inr [note102, note101, note103] \<and>
   (- 1 :: int) \<le> 0 \<and>
   getSummaries rt0 (no_filters\<lparr>limit := Some (- 1)\<rparr>) store0 =
     (Inl LimitNotPositive, issue GetPaged store0) \<and>
   handleDeleteSharedSummary rt0 None (no_filters\<lparr>limit := Some (- 1)\<rparr>) store0 =
     handleDeleteSharedSummary rt0 None (no_filters\<lparr>limit := Some 1\<rparr>) store0 \<and>
   fst (handleDeleteSharedSummary rt0 None (no_filters\<lparr>limit := Some (- 1)\<rparr>) store0) \<noteq>
     Inl LimitNotPositive"
proof -
  have n: "narrow rt0 no_filters [note101, note102, note103] = Inr [note102, note101, note103]"
    using narrow_no_filters[of None] by (simp add: no_filters_def)
  have m: "(- 1 :: int) \<le> 0" by simp
  note th = limit_not_positive[OF config_rt0 paged_store0 n m, of None]
  have g: "getSummaries rt0 (no_filters\<lparr>limit := Some (- 1)\<rparr>) store0 =
           (Inl LimitNotPositive, issue GetPaged store0)"
    using th by simp
  show ?thesis
    using th g config_rt0 paged_store0 n m by blast
qed


section \<open>The time filter\<close>

lemma digit_0: "digit 0 = CHR ''0''"
  by code_simp

lemma pad_two_digits: "n < 100 \<Longrightarrow> pad n = [digit (n div 10), digit (n mod 10)]"
proof (cases "n < 10")
  case True
  then show ?thesis
    by (simp add: pad_def padStart_def toString.simps[of n] digit_0)
next
  case False
  assume "n < 100"
  then have "n div 10 < 10" by simp
  then have "toString (n div 10) = [digit (n div 10)]"
    by (simp add: toString.simps[of "n div 10"])
  then show ?thesis using False
    by (simp add: pad_def padStart_def toString.simps[of n])
qed

lemma getHours_bound: "getHours rt ts < 24"
  by (simp add: getHours_def nat_less_iff)

lemma getMinutes_bound: "getMinutes rt ts < 60"
  by (simp add: getMinutes_def nat_less_iff)

lemma currentTime_format:
  assumes "valid_time ts"
  shows "currentTime rt ts =
         [digit (getHours rt ts div 10), digit (getHours rt ts mod 10), CHR '':'',
          digit (getMinutes rt ts div 10), digit (getMinutes rt ts mod 10)]"
proof -
  have h: "getHours rt ts < 100" using getHours_bound[of rt ts] by simp
  have m: "getMinutes rt ts < 100" using getMinutes_bound[of rt ts] by simp
  show ?thesis
    using assms by (simp add: currentTime_def pad_two_digits[OF h] pad_two_digits[OF m])
qed

lemma filter_timeRange_lex:
  assumes "start \<noteq> []" and "end' \<noteq> []"
  shows "filter_timeRange rt (Some (Some start, Some end')) xs =
         filter (\<lambda>r. start \<le> currentTime rt (timestamp r) \<and>
                     currentTime rt (timestamp r) \<le> end') xs"
  using assms by (simp add: filter_timeRange_def str_le_lex)

lemma notes_times:
  "currentTime rt0 (timestamp note101) = ''09:30'' \<and>
   currentTime rt0 (timestamp note102) = ''08:59'' \<and>
   currentTime rt0 (timestamp note103) = ''10:01''"
  by code_simp

lemma notes_valid: "valid_time (timestamp note101)"
  by code_simp

text \<open>
  Claim C7. With a time range whose \<open>start\<close> and \<open>end\<close> are both non-empty, the
  time filter keeps exactly the records whose \<open>currentTime\<close> lies between \<open>start\<close>
  and \<open>end\<close> in the lexicographic order of strings, both bounds included; with no
  limit, these are exactly the records that \<open>getSummaries\<close> returns out of those
  that passed the date and the day filter. For a valid timestamp \<open>currentTime\<close> is
  the five characters \<open>HH:MM\<close>: two digits of the local hour (below 24), a colon and
  two digits of the minute (below 60).
\<close>

theorem timeRange_inclusive:
  assumes "checkHubSpotConfig rt = []"
    and "fetch_paged h = (Ok results, h1)"
    and "filter_date (date f) results = Inr r1"
    and "filter_dayOfWeek rt (dayOfWeek f) r1 = Inr r2"
    and "timeRange f = Some (Some start, Some end')"
    and "start \<noteq> []" and "end' \<noteq> []"
    and "limit f = None"
  shows "filter_timeRange rt (timeRange f) r2 =
           filter (\<lambda>r. start \<le> currentTime rt (timestamp r) \<and>
                       currentTime rt (timestamp r) \<le> end') r2 \<and>
         (\<exists>out. getSummaries rt f h = (Inr out, h1) \<and>
            (\<forall>r. r \<in> set out \<longleftrightarrow>
                  r \<in> set r2 \<and> start \<le> currentTime rt (timestamp r) \<and>
                  currentTime rt (timestamp r) \<le> end')) \<and>
         (\<forall>r. valid_time (timestamp r) \<longrightarrow>
            currentTime rt (timestamp r) =
              [digit (getHours rt (timestamp r) div 10), digit (getHours rt (timestamp r) mod 10),
               CHR '':'',
               digit (getMinutes rt (timestamp r) div 10), digit (getMinutes rt (timestamp r) mod 10)] \<and>
            getHours rt (timestamp r) < 24 \<and> getMinutes rt (timestamp r) < 60)"
proof -
  let ?kept = "filter (\<lambda>r. start \<le> currentTime rt (timestamp r) \<and>
                          currentTime rt (timestamp r) \<le> end') r2"
  have k: "filter_timeRange rt (timeRange f) r2 = ?kept"
    using assms(5) filter_timeRange_lex[OF assms(6,7)] by simp
  have n: "narrow rt f results = Inr (array_sort by_timestamp_desc ?kept)"
    using assms(3,4) k by (simp add: narrow_def)
  have g: "getSummaries rt f h = (Inr (array_sort by_timestamp_desc ?kept), h1)"
    using assms(1,2,8) n by (simp add: getSummaries_def apply_limit_def)
  have s: "\<forall>r. r \<in> set (array_sort by_timestamp_desc ?kept) \<longleftrightarrow>
             r \<in> set r2 \<and> start \<le> currentTime rt (timestamp r) \<and>
             currentTime rt (timestamp r) \<le> end'"
    by (simp add: array_sort_set)
  show ?thesis
    using k g s currentTime_format getHours_bound getMinutes_bound by blast
qed

theorem timeRange_inclusive_witness:
  "checkHubSpotConfig rt0 = [] \<and>
   fetch_paged store0 = (Ok [note101, note102, note103], issue GetPaged store0) \<and>
   filter_date (date (no_filters\<lparr>timeRange := Some (Some ''09:00'', Some ''09:30'')\<rparr>))
     [note101, note102, note103] = Inr [note101, note102, note103] \<and>
   filter_dayOfWeek rt0 (dayOfWeek (no_filters\<lparr>timeRange := Some (Some ''09:00'', Some ''09:30'')\<rparr>))
     [note101, note102, note103] = Inr [note101, note102, note103] \<and>
   ''09:00'' \<noteq> [] \<and> ''09:30'' \<noteq> [] \<and>
   limit (no_filters\<lparr>timeRange := Some (Some ''09:00'', Some ''09:30'')\<rparr>) = None \<and>
   valid_time (timestamp note101) \<and>
   currentTime rt0 (timestamp note101) = ''09:30'' \<and>
   getSummaries rt0 (no_filters\<lparr>timeRange := Some (Some ''09:00'', Some ''09:30'')\<rparr>) store0 =
     (Inr [note101], issue GetPaged store0)"
proof -
  let ?f = "no_filters\<lparr>timeRange := Some (Some ''09:00'', Some ''09:30'')\<rparr>"
  let ?page = "[note101, note102, note103]"
  have c: "filter_date (date ?f) ?page = Inr ?page"
    by (simp add: filter_date_def no_filters_def)
  have d: "filter_dayOfWeek rt0 (dayOfWeek ?f) ?page = Inr ?page"
    by (simp add: filter_dayOfWeek_def no_filters_def)
  have t: "timeRange ?f = Some (Some ''09:00'', Some ''09:30'')" by simp
  have s: "''09:00'' \<noteq> []" and e: "''09:30'' \<noteq> []" by simp_all
  have l: "limit ?f = None" by (simp add: no_filters_def)
  note th = timeRange_inclusive[OF config_rt0 paged_store0 c d t s e l]
  have k0: "filter_timeRange rt0 (timeRange ?f) ?page =
            filter (\<lambda>r. ''09:00'' \<le> currentTime rt0 (timestamp r) \<and>
                        currentTime rt0 (timestamp r) \<le> ''09:30'') ?page"
    using th by blast
  have k: "filter_timeRange rt0 (timeRange ?f) ?page = [note101]"
    unfolding k0 using notes_times by (simp flip: str_le_lex)
  have g: "getSummaries rt0 ?f store0 = (Inr [note101], issue GetPaged store0)"
    using c d k config_rt0 paged_store0 l
    by (simp add: getSummaries_def narrow_def apply_limit_def array_sort_def)
  show ?thesis
    using th config_rt0 paged_store0 c d s e l notes_valid notes_times g by simp
qed


section \<open>The day filter\<close>

text \<open>What the day filter does on a non-empty name, by what \<open>dayMap\<close> holds for the
  name in lower case: a day number, nothing, or an inherited property.\<close>

lemma filter_dayOfWeek_day:
  assumes "d \<noteq> []" and "dayMap (toLowerCase d) = Day k"
  shows "filter_dayOfWeek rt (Some d) xs =
         Inr (filter (\<lambda>r. getDay rt (timestamp r) = Some k) xs)"
proof -
  have "day_equals g (Day k) = (g = Some k)" for g
    by (cases g) (auto simp: day_equals_def)
  then show ?thesis using assms by (simp add: filter_dayOfWeek_def)
qed

lemma filter_dayOfWeek_undefined:
  assumes "d \<noteq> []" and "dayMap (toLowerCase d) = Undefined"
  shows "filter_dayOfWeek rt (Some d) xs = Inl (InvalidDayOfWeek d)"
  using assms by (simp add: filter_dayOfWeek_def)

lemma filter_dayOfWeek_inherited:
  assumes "d \<noteq> []" and "dayMap (toLowerCase d) = Inherited"
  shows "filter_dayOfWeek rt (Some d) xs = Inr []"
proof -
  have "day_equals g Inherited = False" for g
    by (cases g) (auto simp: day_equals_def)
  then show ?thesis using assms by (simp add: filter_dayOfWeek_def)
qed

text \<open>
  Claim C6 at the day name \<open>constructor\<close>. The name is none of the seven day names,
  but \<open>dayMap\<close> holds an inherited property for it, so the test against
  \<open>undefined\<close> passes: \<open>getSummaries\<close> raises no error and returns the empty list,
  where the claim asks for a validation error.
\<close>

theorem dayOfWeek_inherited_key_no_error:
  "dayMap (toLowerCase ''constructor'') = Inherited \<and>
   getSummaries rt0 (no_filters\<lparr>dayOfWeek := Some ''constructor''\<rparr>) store0 =
     (Inr [], issue GetPaged store0)"
proof -
  have m: "dayMap (toLowerCase ''constructor'') = Inherited" by code_simp
  have "narrow rt0 (no_filters\<lparr>dayOfWeek := Some ''constructor''\<rparr>) [note101, note102, note103] = Inr []"
    by code_simp
  then show ?thesis
    using m config_rt0 paged_store0
    by (simp add: getSummaries_def apply_limit_def no_filters_def)
qed


section \<open>Updating a note\<close>

lemma or_else_Nil: "or_else v [] = (case v of None \<Rightarrow> [] | Some b \<Rightarrow> b)"
  by (simp add: or_else_def split: option.splits)

lemma matches_query_sublist:
  "matches_query q r \<longleftrightarrow>
   sublist (toLowerCase q) (toLowerCase (case body r of None \<Rightarrow> [] | Some b \<Rightarrow> b))"
  by (simp add: matches_query_def str_includes_sublist or_else_Nil)

lemma array_sort_hd:
  assumes "array_sort by_timestamp_desc xs = c # cs"
  shows "find (\<lambda>r. \<forall>r' \<in> set xs. timestamp r' \<le> timestamp r) xs = Some c"
proof -
  have mem: "c \<in> set xs"
    using assms array_sort_set[of xs] by (metis list.set_intros(1))
  have srt: "sorted_wrt (\<lambda>a b. timestamp b \<le> timestamp a) (c # cs)"
    using array_sort_sorted[of xs] assms by simp
  have mx: "\<forall>r \<in> set xs. timestamp r \<le> timestamp c"
  proof
    fix r assume "r \<in> set xs"
    then have "r \<in> set (c # cs)" using assms array_sort_set[of xs] by simp
    then show "timestamp r \<le> timestamp c" using srt by auto
  qed
  have "filter (\<lambda>r. timestamp r = timestamp c) xs =
        filter (\<lambda>r. timestamp r = timestamp c) (c # cs)"
    using array_sort_stable[of "timestamp c" xs] assms by simp
  then have fl: "filter (\<lambda>r. timestamp r = timestamp c) xs =
                 c # filter (\<lambda>r. timestamp r = timestamp c) cs"
    by simp
  have eqp: "(\<forall>r' \<in> set xs. timestamp r' \<le> timestamp r) = (timestamp r = timestamp c)"
    if "r \<in> set xs" for r
  proof
    assume "\<forall>r' \<in> set xs. timestamp r' \<le> timestamp r"
    then have "timestamp c \<le> timestamp r" using mem by blast
    moreover have "timestamp r \<le> timestamp c" using mx that by blast
    ultimately show "timestamp r = timestamp c" by simp
  next
    assume "timestamp r = timestamp c"
    then show "\<forall>r' \<in> set xs. timestamp r' \<le> timestamp r" using mx by simp
  qed
  have "find (\<lambda>r. \<forall>r' \<in> set xs. timestamp r' \<le> timestamp r) xs =
        find (\<lambda>r. timestamp r = timestamp c) xs"
    by (rule find_cong) (auto simp: eqp)
  also have "\<dots> = Some c"
    using fl by (induction xs) (auto split: if_splits)
  finally show ?thesis .
qed

lemma fetch_engagement_issue:
  "fetch_engagement i h = (r, h2) \<Longrightarrow> h2 = issue (GetEngagement i) h"
  by (auto simp: fetch_engagement_def split: option.splits prod.splits)

lemma put_engagement_calls:
  "calls (snd (put_engagement i b h)) = calls h @ [PutEngagement i b]"
  by (auto simp: put_engagement_def issue_def split: option.splits prod.splits)

lemma update_target_calls:
  "\<exists>cs. calls (snd (update_target i t s a h)) = calls h @ cs \<and> GetPaged \<notin> set cs"
proof (cases "fetch_engagement i h")
  case (Pair r h2)
  then have h2: "h2 = issue (GetEngagement i) h" by (rule fetch_engagement_issue)
  show ?thesis
  proof (cases r)
    case (NotOk st msg)
    then show ?thesis using Pair h2 by (simp add: update_target_def issue_def)
  next
    case (Ok getData)
    show ?thesis
    proof (cases "body getData")
      case None
      then show ?thesis using Pair Ok h2 by (simp add: update_target_def issue_def)
    next
      case (Some currentBody)
      let ?b = "noteBody (or_else t (currentTitle (decode currentBody)))
                  (or_else s (currentSummary (decode currentBody)))
                  (or_else a (currentAuthor (decode currentBody)))"
      have "snd (update_target i t s a h) = snd (put_engagement i ?b h2)"
        using Pair Ok Some
        by (simp add: update_target_def Let_def split: prod.splits response.splits)
      then have "calls (snd (update_target i t s a h)) =
                 calls h @ [GetEngagement i, PutEngagement i ?b]"
        using h2 by (simp add: put_engagement_calls issue_def)
      then show ?thesis by simp
    qed
  qed
qed

lemma or_else_truthy: "or_else v d = (if truthy v then the v else d)"
  by (simp add: or_else_def truthy_def split: option.splits)

lemma or_else_empty: "or_else (Some []) d = or_else None d"
  by (simp add: or_else_def)

text \<open>Runs on the store \<open>store0\<close>, and on the same store with the newest note
  last in the page.\<close>

lemma get_103_store0:
  "fetch_engagement ''103'' store0 = (Ok note103, issue (GetEngagement ''103'') store0)"
  by (simp add: fetch_engagement_def store0_def note101_def note102_def note103_def)

lemma body_103: "body note103 = Some (noteBody ''Retro'' ''Over budget'' ''Cy'')"
  by (simp add: note103_def)

lemma decode_103:
  "decode (noteBody ''Retro'' ''Over budget'' ''Cy'') =
   \<lparr>currentTitle = ''Retro'', currentSummary = ''Over budget'', currentAuthor = ''Cy''\<rparr>"
  by (rule decode_noteBody) simp_all

lemma put_103:
  "fst (put_engagement ''103'' b (issue (GetEngagement ''103'') store0)) = Ok ''103'' \<and>
   calls (snd (put_engagement ''103'' b (issue (GetEngagement ''103'') store0))) =
     [GetEngagement ''103'', PutEngagement ''103'' b]"
  by (simp add: put_engagement_def issue_def store0_def note101_def note102_def note103_def)

lemma update_103_run:
  "fst (update_target ''103'' None (Some ''new text'') None store0) = Inr ''103'' \<and>
   calls (snd (update_target ''103'' None (Some ''new text'') None store0)) =
     [GetEngagement ''103'', PutEngagement ''103'' (noteBody ''Retro'' ''new text'' ''Cy'')]"
  by code_simp

lemma page_newest_last:
  "fetch_paged (store0\<lparr>engagements := [note103, note102, note101]\<rparr>) =
   (Ok [note103, note102, note101],
    issue GetPaged (store0\<lparr>engagements := [note103, note102, note101]\<rparr>))"
  by (simp add: fetch_paged_def store0_def)

lemma matches_zebra: "filter (matches_query ''zebra'') [note103, note102, note101] = []"
  by code_simp

lemma matches_budget:
  "filter (matches_query ''BUDGET'') [note103, note102, note101] = [note103, note101]"
  by code_simp

text \<open>
  Claim C4, as stated, fails. The claim keeps the records whose decoded body contains
  the query. On the store \<open>store0\<close> no note has the query \<open>title\<close> in its decoded
  title, summary or author, so by the claim the update fails with the not-found error.
  The source searches the body as stored, where every note holds the label
  \<open>Title: \<close>: all three notes are kept, and the update rewrites the most recent
  one, \<open>102\<close>.
\<close>

theorem update_by_query_raw_body_counterexample:
  "fst (fetch_paged store0) = Ok [note101, note102, note103] \<and>
   filter (decoded_body_contains ''title'') [note101, note102, note103] = [] \<and>
   filter (matches_query ''title'') [note101, note102, note103] =
     [note101, note102, note103] \<and>
   fst (updateSharedSummary rt0 None (Some ''title'') None (Some ''new text'') None store0) =
     Inr ''102'' \<and>
   calls (snd (updateSharedSummary rt0 None (Some ''title'') None (Some ''new text'') None
       store0)) =
     [GetPaged, GetEngagement ''102'',
      PutEngagement ''102'' (noteBody ''Plan'' ''new text'' ''Bob'')]"
  by code_simp

text \<open>
  Claim C4, amended. \<open>updateSharedSummary\<close> without a usable identifier: with no
  query, or an empty one, it fails with "Please provide an Engagement ID or a search
  query" before any request. With a non-empty query it fetches the page and, for a query
  and bodies of ASCII text, keeps exactly the records whose body as stored (the whole
  text with its labels and line feeds, undecoded; the empty string when the body is
  absent) holds the query as a contiguous part, both in lower case. If none is kept it
  fails with "No summary found matching the provided query."; otherwise the one record
  it goes on with is the first kept record whose timestamp no kept record exceeds (the
  most recent match), and its identifier, when not empty, is the single target of the
  update.
\<close>

theorem update_by_query:
  assumes "checkHubSpotConfig rt = []" and "\<not> truthy ident"
  shows "(\<not> truthy query \<longrightarrow>
            updateSharedSummary rt ident query t s a h = (Inl NoIdOrQuery, h)) \<and>
         (\<forall>q results h1 cands.
            query = Some q \<and> q \<noteq> [] \<and> ascii q \<and> fetch_paged h = (Ok results, h1) \<and>
            list_all (\<lambda>r. ascii (case body r of None \<Rightarrow> [] | Some b \<Rightarrow> b)) results \<and>
            cands = filter (\<lambda>r. sublist (toLowerCase q)
                       (toLowerCase (case body r of None \<Rightarrow> [] | Some b \<Rightarrow> b))) results \<longrightarrow>
            (cands = [] \<longrightarrow>
               updateSharedSummary rt ident query t s a h = (Inl NoSummaryForQuery, h1)) \<and>
            (cands \<noteq> [] \<longrightarrow>
               (\<exists>c. find (\<lambda>r. \<forall>r' \<in> set cands. timestamp r' \<le> timestamp r) cands = Some c \<and>
                    (eid c \<noteq> [] \<longrightarrow>
                       updateSharedSummary rt ident query t s a h =
                         update_target (eid c) t s a h1))))"
proof (intro conjI allI impI)
  assume "\<not> truthy query"
  then show "updateSharedSummary rt ident query t s a h = (Inl NoIdOrQuery, h)"
    using assms by (simp add: updateSharedSummary_def)
next
  fix q results h1 cands
  assume A: "query = Some q \<and> q \<noteq> [] \<and> ascii q \<and> fetch_paged h = (Ok results, h1) \<and>
             list_all (\<lambda>r. ascii (case body r of None \<Rightarrow> [] | Some b \<Rightarrow> b)) results \<and>
             cands = filter (\<lambda>r. sublist (toLowerCase q)
                       (toLowerCase (case body r of None \<Rightarrow> [] | Some b \<Rightarrow> b))) results"
  then have tq: "truthy query" and oq: "or_else query [] = q"
    by (simp_all add: truthy_def or_else_def)
  have "matches_query q = (\<lambda>r. sublist (toLowerCase q)
          (toLowerCase (case body r of None \<Rightarrow> [] | Some b \<Rightarrow> b)))"
    by (rule ext) (rule matches_query_sublist)
  then have cf: "filter (matches_query q) results = cands"
    using A by simp
  have u: "updateSharedSummary rt ident query t s a h =
           (case array_sort by_timestamp_desc cands of
              [] \<Rightarrow> (Inl NoSummaryForQuery, h1)
            | c # cs \<Rightarrow> if eid c = [] then (Inl NoIdOrQuery, h1)
                        else update_target (eid c) t s a h1)"
    using assms tq oq cf A by (simp add: updateSharedSummary_def)
  {
    assume "cands = []"
    then show "updateSharedSummary rt ident query t s a h = (Inl NoSummaryForQuery, h1)"
      using u by (simp add: array_sort_def)
  }
  {
    assume "cands \<noteq> []"
    then obtain c cs where sc: "array_sort by_timestamp_desc cands = c # cs"
      using array_sort_Nil_iff[of cands] by (cases "array_sort by_timestamp_desc cands") auto
    have "find (\<lambda>r. \<forall>r' \<in> set cands. timestamp r' \<le> timestamp r) cands = Some c"
      using array_sort_hd[OF sc] .
    moreover have "eid c \<noteq> [] \<longrightarrow>
        updateSharedSummary rt ident query t s a h = update_target (eid c) t s a h1"
      using u sc by simp
    ultimately show "\<exists>c. find (\<lambda>r. \<forall>r' \<in> set cands. timestamp r' \<le> timestamp r) cands = Some c \<and>
                    (eid c \<noteq> [] \<longrightarrow>
                       updateSharedSummary rt ident query t s a h =
                         update_target (eid c) t s a h1)"
      by blast
  }
qed

theorem update_by_query_witness:
  "checkHubSpotConfig rt0 = [] \<and> \<not> truthy None \<and>
   updateSharedSummary rt0 None None None (Some ''new text'') None
       (store0\<lparr>engagements := [note103, note102, note101]\<rparr>) =
     (Inl NoIdOrQuery, store0\<lparr>engagements := [note103, note102, note101]\<rparr>) \<and>
   fetch_paged (store0\<lparr>engagements := [note103, note102, note101]\<rparr>) =
     (Ok [note103, note102, note101],
      issue GetPaged (store0\<lparr>engagements := [note103, note102, note101]\<rparr>)) \<and>
   ascii ''zebra'' \<and> ascii ''BUDGET'' \<and>
   list_all (\<lambda>r. ascii (case body r of None \<Rightarrow> [] | Some b \<Rightarrow> b))
     [note103, note102, note101] \<and>
   filter (\<lambda>r. sublist (toLowerCase ''zebra'')
              (toLowerCase (case body r of None \<Rightarrow> [] | Some b \<Rightarrow> b)))
     [note103, note102, note101] = [] \<and>
   updateSharedSummary rt0 None (Some ''zebra'') None (Some ''new text'') None
       (store0\<lparr>engagements := [note103, note102, note101]\<rparr>) =
     (Inl NoSummaryForQuery,
      issue GetPaged (store0\<lparr>engagements := [note103, note102, note101]\<rparr>)) \<and>
   filter (\<lambda>r. sublist (toLowerCase ''BUDGET'')
              (toLowerCase (case body r of None \<Rightarrow> [] | Some b \<Rightarrow> b)))
     [note103, note102, note101] = [note103, note101] \<and>
   find (\<lambda>r. \<forall>r' \<in> set [note103, note101]. timestamp r' \<le> timestamp r) [note103, note101] =
     Some note101 \<and>
   eid note101 \<noteq> [] \<and>
   updateSharedSummary rt0 None (Some ''BUDGET'') None (Some ''new text'') None
       (store0\<lparr>engagements := [note103, note102, note101]\<rparr>) =
     update_target ''101'' None (Some ''new text'') None
       (issue GetPaged (store0\<lparr>engagements := [note103, note102, note101]\<rparr>))"
proof -
  let ?S = "store0\<lparr>engagements := [note103, note102, note101]\<rparr>"
  let ?page = "[note103, note102, note101]"
  let ?sub = "\<lambda>q r. sublist (toLowerCase q)
                 (toLowerCase (case body r of None \<Rightarrow> [] | Some b \<Rightarrow> b))"
  have nt: "\<not> truthy None" by (simp add: truthy_def)
  have mq: "matches_query q = ?sub q" for q
    by (rule ext) (rule matches_query_sublist)
  have z: "filter (?sub ''zebra'') ?page = []"
    using matches_zebra unfolding mq .
  have b: "filter (?sub ''BUDGET'') ?page = [note103, note101]"
    using matches_budget unfolding mq .
  have f: "find (\<lambda>r. \<forall>r' \<in> set [note103, note101]. timestamp r' \<le> timestamp r)
             [note103, note101] = Some note101"
    by (simp add: note101_def note103_def)
  have e: "eid note101 = ''101''" by (simp add: note101_def)
  have az: "ascii ''zebra''" and ab: "ascii ''BUDGET''" by code_simp+
  have ap: "list_all (\<lambda>r. ascii (case body r of None \<Rightarrow> [] | Some b \<Rightarrow> b)) ?page"
    by code_simp
  have 1: "updateSharedSummary rt0 None None None (Some ''new text'') None ?S = (Inl NoIdOrQuery, ?S)"
    using update_by_query[OF config_rt0 nt, where query = None and t = None
        and s = "Some ''new text''" and a = None and h = ?S] nt
    by blast
  have pz: "Some ''zebra'' = Some ''zebra'' \<and> ''zebra'' \<noteq> [] \<and> ascii ''zebra'' \<and>
            fetch_paged ?S = (Ok ?page, issue GetPaged ?S) \<and>
            list_all (\<lambda>r. ascii (case body r of None \<Rightarrow> [] | Some b \<Rightarrow> b)) ?page \<and>
            [] = filter (?sub ''zebra'') ?page"
    using page_newest_last z[symmetric] az ap by blast
  have 2: "updateSharedSummary rt0 None (Some ''zebra'') None (Some ''new text'') None ?S =
           (Inl NoSummaryForQuery, issue GetPaged ?S)"
    using update_by_query[OF config_rt0 nt, where query = "Some ''zebra''" and t = None
        and s = "Some ''new text''" and a = None and h = ?S,
        THEN conjunct2, rule_format, OF pz]
    by blast
  have pb: "Some ''BUDGET'' = Some ''BUDGET'' \<and> ''BUDGET'' \<noteq> [] \<and> ascii ''BUDGET'' \<and>
            fetch_paged ?S = (Ok ?page, issue GetPaged ?S) \<and>
            list_all (\<lambda>r. ascii (case body r of None \<Rightarrow> [] | Some b \<Rightarrow> b)) ?page \<and>
            [note103, note101] = filter (?sub ''BUDGET'') ?page"
    using page_newest_last b[symmetric] ab ap by blast
  have "[note103, note101] \<noteq> [] \<longrightarrow>
          (\<exists>c. find (\<lambda>r. \<forall>r' \<in> set [note103, note101]. timestamp r' \<le> timestamp r)
               [note103, note101] = Some c \<and>
            (eid c \<noteq> [] \<longrightarrow>
               updateSharedSummary rt0 None (Some ''BUDGET'') None (Some ''new text'') None ?S =
                 update_target (eid c) None (Some ''new text'') None (issue GetPaged ?S)))"
    using update_by_query[OF config_rt0 nt, where query = "Some ''BUDGET''" and t = None
        and s = "Some ''new text''" and a = None and h = ?S,
        THEN conjunct2, rule_format, OF pb]
    by blast
  then obtain c where
    fc: "find (\<lambda>r. \<forall>r' \<in> set [note103, note101]. timestamp r' \<le> timestamp r)
           [note103, note101] = Some c"
    and uc: "eid c \<noteq> [] \<longrightarrow>
               updateSharedSummary rt0 None (Some ''BUDGET'') None (Some ''new text'') None ?S =
                 update_target (eid c) None (Some ''new text'') None (issue GetPaged ?S)"
    by blast
  have "c = note101" using fc f by simp
  then have 3: "updateSharedSummary rt0 None (Some ''BUDGET'') None (Some ''new text'') None ?S =
                  update_target ''101'' None (Some ''new text'') None (issue GetPaged ?S)"
    using uc e by simp
  have e': "eid note101 \<noteq> []" using e by simp
  show ?thesis
    using config_rt0 nt 1 page_newest_last az ab ap z 2 b f e' 3 by blast
qed

text \<open>
  Claim C3. Once the note is read with a body, the body written back is the template
  filled, for each of title, summary and author on its own, with the caller's value when
  that is a non-empty string and with the field parsed from the current body otherwise;
  the only error left is a failing PUT. An empty string for a field does exactly what
  leaving the field out does.
\<close>

theorem update_merge:
  assumes "fetch_engagement targetId h = (Ok getData, h2)"
    and "body getData = Some currentBody"
  shows "update_target targetId title summary author h =
           (case put_engagement targetId
                   (noteBody
                      (if truthy title then the title else currentTitle (decode currentBody))
                      (if truthy summary then the summary else currentSummary (decode currentBody))
                      (if truthy author then the author else currentAuthor (decode currentBody)))
                   h2 of
              (NotOk st msg, h3) \<Rightarrow> (Inl (HttpError st msg), h3)
            | (Ok i, h3) \<Rightarrow> (Inr i, h3)) \<and>
         update_target targetId (Some []) summary author h =
           update_target targetId None summary author h \<and>
         update_target targetId title (Some []) author h =
           update_target targetId title None author h \<and>
         update_target targetId title summary (Some []) h =
           update_target targetId title summary None h"
  using assms
  by (simp add: update_target_def Let_def or_else_empty flip: or_else_truthy)

theorem update_merge_witness:
  "fetch_engagement ''103'' store0 = (Ok note103, issue (GetEngagement ''103'') store0) \<and>
   body note103 = Some (noteBody ''Retro'' ''Over budget'' ''Cy'') \<and>
   fst (update_target ''103'' (Some []) (Some ''new text'') None store0) = Inr ''103'' \<and>
   calls (snd (update_target ''103'' (Some []) (Some ''new text'') None store0)) =
     [GetEngagement ''103'', PutEngagement ''103'' (noteBody ''Retro'' ''new text'' ''Cy'')] \<and>
   update_target ''103'' (Some []) (Some ''new text'') None store0 =
     update_target ''103'' None (Some ''new text'') None store0"
proof -
  note th = update_merge[OF get_103_store0 body_103, of "Some []" "Some ''new text''" None]
  let ?b = "noteBody ''Retro'' ''new text'' ''Cy''"
  have u: "update_target ''103'' (Some []) (Some ''new text'') None store0 =
           (case put_engagement ''103'' ?b (issue (GetEngagement ''103'') store0) of
              (NotOk st msg, h3) \<Rightarrow> (Inl (HttpError st msg), h3)
            | (Ok i, h3) \<Rightarrow> (Inr i, h3))"
    using th by (simp add: truthy_def decode_103)
  obtain res h3 where p: "put_engagement ''103'' ?b (issue (GetEngagement ''103'') store0) = (res, h3)"
    by (cases "put_engagement ''103'' ?b (issue (GetEngagement ''103'') store0)")
  have res: "res = Ok ''103''"
    and h3: "calls h3 = [GetEngagement ''103'', PutEngagement ''103'' ?b]"
    using put_103[of ?b] p by simp_all
  have r: "fst (update_target ''103'' (Some []) (Some ''new text'') None store0) = Inr ''103''"
    unfolding u p res by simp
  have c: "calls (snd (update_target ''103'' (Some []) (Some ''new text'') None store0)) =
           [GetEngagement ''103'', PutEngagement ''103'' ?b]"
    unfolding u p res using h3 by simp
  show ?thesis using th r c get_103_store0 body_103 by blast
qed

text \<open>
  Claim C10. With a non-empty identifier, \<open>updateSharedSummary\<close> gives the same result
  and leaves the same store, request log included, whatever the query is; and among the
  requests it issues there is no page fetch.
\<close>

theorem update_id_ignores_query:
  assumes "truthy ident"
  shows "updateSharedSummary rt ident query1 t s a h =
           updateSharedSummary rt ident query2 t s a h \<and>
         (\<exists>cs. calls (snd (updateSharedSummary rt ident query1 t s a h)) = calls h @ cs \<and>
               GetPaged \<notin> set cs)"
proof -
  have u: "updateSharedSummary rt ident q t s a h =
           (if checkHubSpotConfig rt \<noteq> [] then (Inl (MissingEnv (checkHubSpotConfig rt)), h)
            else update_target (or_else ident []) t s a h)" for q
    using assms by (simp add: updateSharedSummary_def Let_def)
  have "\<exists>cs. calls (snd (updateSharedSummary rt ident query1 t s a h)) = calls h @ cs \<and>
             GetPaged \<notin> set cs"
  proof (cases "checkHubSpotConfig rt = []")
    case True
    then show ?thesis using u[of query1] update_target_calls by simp
  next
    case False
    then show ?thesis using u[of query1] by simp
  qed
  then show ?thesis using u[of query1] u[of query2] by simp
qed

theorem update_id_ignores_query_witness:
  "truthy (Some ''103'') \<and>
   updateSharedSummary rt0 (Some ''103'') (Some ''Plan'') None (Some ''new text'') None store0 =
     updateSharedSummary rt0 (Some ''103'') None None (Some ''new text'') None store0 \<and>
   fst (updateSharedSummary rt0 (Some ''103'') (Some ''Plan'') None (Some ''new text'') None store0) =
     Inr ''103'' \<and>
   calls (snd (updateSharedSummary rt0 (Some ''103'') (Some ''Plan'') None (Some ''new text'') None store0)) =
     [GetEngagement ''103'', PutEngagement ''103'' (noteBody ''Retro'' ''new text'' ''Cy'')]"
proof -
  have i: "truthy (Some ''103'')" by (simp add: truthy_def)
  note th = update_id_ignores_query[OF i, where rt = rt0 and ?query1.0 = "Some ''Plan''"
      and ?query2.0 = None and t = None and s = "Some ''new text''" and a = None and h = store0]
  have "updateSharedSummary rt0 (Some ''103'') None None (Some ''new text'') None store0 =
        update_target ''103'' None (Some ''new text'') None store0"
    using config_rt0 i by (simp add: updateSharedSummary_def or_else_def)
  then show ?thesis using th i update_103_run by simp
qed


section \<open>The parser on any body\<close>

lemma update_target_reaches_put:
  assumes "fetch_engagement i h = (Ok getData, h2)" and "body getData = Some b"
  shows "calls (snd (update_target i t s a h)) =
         calls h @ [GetEngagement i,
                    PutEngagement i (noteBody (or_else t (currentTitle (decode b)))
                                              (or_else s (currentSummary (decode b)))
                                              (or_else a (currentAuthor (decode b))))]"
proof -
  let ?b = "noteBody (or_else t (currentTitle (decode b)))
              (or_else s (currentSummary (decode b)))
              (or_else a (currentAuthor (decode b)))"
  have h2: "h2 = issue (GetEngagement i) h"
    using assms(1) by (rule fetch_engagement_issue)
  have "snd (update_target i t s a h) = snd (put_engagement i ?b h2)"
    using assms by (simp add: update_target_def Let_def split: prod.splits response.splits)
  then show ?thesis
    using h2 by (simp add: put_engagement_calls issue_def)
qed

lemma get_104:
  "fetch_engagement ''104'' store104 = (Ok note104, issue (GetEngagement ''104'') store104)"
  by (simp add: fetch_engagement_def store104_def note104_def)

lemma body_104: "body note104 = Some ''call Ann back''"
  by (simp add: note104_def)

text \<open>
  Claim C9. The parser is a total function of the body, with no error among its
  results. For every body, a field none of whose lines carries its label is the empty
  string, and the lines that carry none of the three labels change nothing: the parse of
  the body is the parse of its labelled lines alone. Inside the update nothing fails
  between reading a note with a body and writing it back: whatever the body is, the PUT
  is issued, with the template filled from the parse.
\<close>

theorem decode_lenient:
  "((\<forall>l \<in> set (split_nl b). \<not> startsWith l ''Title: '') \<longrightarrow> currentTitle (decode b) = []) \<and>
   ((\<forall>l \<in> set (split_nl b). \<not> startsWith l ''Summary: '') \<longrightarrow> currentSummary (decode b) = []) \<and>
   ((\<forall>l \<in> set (split_nl b). \<not> startsWith l ''Author: '') \<longrightarrow> currentAuthor (decode b) = []) \<and>
   decode b = foldl parse_line current0 (filter labelled (split_nl b)) \<and>
   (fetch_engagement i h = (Ok getData, h2) \<and> body getData = Some b \<longrightarrow>
      calls (snd (update_target i t s a h)) =
        calls h @ [GetEngagement i,
                   PutEngagement i (noteBody (or_else t (currentTitle (decode b)))
                                             (or_else s (currentSummary (decode b)))
                                             (or_else a (currentAuthor (decode b))))])"
  using update_target_reaches_put[of i h getData h2 b t s a]
  by (simp add: decode_def foldl_title_absent foldl_summary_absent foldl_author_absent
      foldl_parse_filter current0_def)

theorem decode_lenient_witness:
  "split_nl ''call Ann back'' = [''call Ann back''] \<and>
   \<not> startsWith ''call Ann back'' ''Title: '' \<and>
   \<not> startsWith ''call Ann back'' ''Summary: '' \<and>
   \<not> startsWith ''call Ann back'' ''Author: '' \<and>
   currentTitle (decode ''call Ann back'') = [] \<and>
   currentSummary (decode ''call Ann back'') = [] \<and>
   currentAuthor (decode ''call Ann back'') = [] \<and>
   decode ''call Ann back'' =
     foldl parse_line current0 (filter labelled (split_nl ''call Ann back'')) \<and>
   fetch_engagement ''104'' store104 = (Ok note104, issue (GetEngagement ''104'') store104) \<and>
   body note104 = Some ''call Ann back'' \<and>
   calls (snd (update_target ''104'' None (Some ''S2'') None store104)) =
     [GetEngagement ''104'', PutEngagement ''104'' (noteBody [] ''S2'' [])]"
proof -
  note th = decode_lenient[of "''call Ann back''" "''104''" store104 note104
      "issue (GetEngagement ''104'') store104" None "Some ''S2''" None]
  have a: "split_nl ''call Ann back'' = [''call Ann back'']" by simp
  have b: "\<not> startsWith ''call Ann back'' ''Title: '' \<and>
           \<not> startsWith ''call Ann back'' ''Summary: '' \<and>
           \<not> startsWith ''call Ann back'' ''Author: ''"
    by (simp add: startsWith_def)
  have q1: "\<forall>l \<in> set (split_nl ''call Ann back''). \<not> startsWith l ''Title: ''"
    and q2: "\<forall>l \<in> set (split_nl ''call Ann back''). \<not> startsWith l ''Summary: ''"
    and q3: "\<forall>l \<in> set (split_nl ''call Ann back''). \<not> startsWith l ''Author: ''"
    using b unfolding a by simp_all
  have t: "currentTitle (decode ''call Ann back'') = []"
    using th q1 by blast
  have s: "currentSummary (decode ''call Ann back'') = []"
    using th q2 by blast
  have u: "currentAuthor (decode ''call Ann back'') = []"
    using th q3 by blast
  have d: "decode ''call Ann back'' =
           foldl parse_line current0 (filter labelled (split_nl ''call Ann back''))"
    using th by blast
  have "calls (snd (update_target ''104'' None (Some ''S2'') None store104)) =
        calls store104 @ [GetEngagement ''104'',
          PutEngagement ''104'' (noteBody (or_else None (currentTitle (decode ''call Ann back'')))
            (or_else (Some ''S2'') (currentSummary (decode ''call Ann back'')))
            (or_else None (currentAuthor (decode ''call Ann back''))))]"
    using th get_104 body_104 by blast
  then have c: "calls (snd (update_target ''104'' None (Some ''S2'') None store104)) =
                [GetEngagement ''104'', PutEngagement ''104'' (noteBody [] ''S2'' [])]"
    unfolding t s u by (simp add: or_else_def store104_def)
  show ?thesis using a b t s u d get_104 body_104 c by blast
qed

end
